theory Spec2Isabelle
  imports Complex_Main
begin

section \<open>Python values, exceptions and dictionaries\<close>

text \<open>
  The adapter is \<^verbatim>\<open>src/spikesorters/waveclus/waveclus.py\<close>. A Python exception is
  a value of \<open>exn\<close>; a computation that may raise returns \<open>exn + 'a\<close> with \<open>Inl\<close> for
  the exception. The source raises the builtin \<^verbatim>\<open>Exception\<close> with a message at its
  own three raise sites; the other constructors are the builtin exceptions of the
  operations it calls.
\<close>

datatype exn =
    Exception string
  | KeyError string
  | TypeError string
  | ValueError string
  | ZeroDivisionError string
  | OSError string
  | FileExistsError string

text \<open>The two quote characters, for the texts below.\<close>

definition sq :: string where
  "sq = [CHR 0x27]"

definition dq :: string where
  "dq = [CHR 0x22]"

definition and_then :: "exn + 'a \<Rightarrow> ('a \<Rightarrow> exn + 'b) \<Rightarrow> exn + 'b" where
  "and_then r f = (case r of Inl e \<Rightarrow> Inl e | Inr x \<Rightarrow> f x)"

text \<open>
  The values a parameter dictionary holds. \<^verbatim>\<open>bool\<close> is kept apart from \<^verbatim>\<open>int\<close>
  because the source tests \<^verbatim>\<open>type(value) == bool\<close>. A float is a real number
  (infinities and NaN are left out).
\<close>

datatype pyval = PInt int | PFloat real | PStr string | PBool bool | PNone

fun truthy :: "pyval \<Rightarrow> bool" where
  "truthy (PInt i) = (i \<noteq> 0)"
| "truthy (PFloat x) = (x \<noteq> 0)"
| "truthy (PStr s) = (s \<noteq> [])"
| "truthy (PBool b) = b"
| "truthy PNone = False"

text \<open>\<^verbatim>\<open>value < 0\<close> and \<^verbatim>\<open>value > 0\<close>: numbers compare, \<^verbatim>\<open>True\<close> counts as 1,
  a string or \<^verbatim>\<open>None\<close> raises \<^verbatim>\<open>TypeError\<close>.\<close>

fun lt_zero :: "pyval \<Rightarrow> exn + bool" where
  "lt_zero (PInt i) = Inr (i < 0)"
| "lt_zero (PFloat x) = Inr (x < 0)"
| "lt_zero (PBool b) = Inr False"
| "lt_zero (PStr s) = Inl (TypeError (sq @ ''<'' @ sq @ '' not supported between instances of '' @ sq @ ''str'' @ sq @ '' and '' @ sq @ ''int'' @ sq))"
| "lt_zero PNone = Inl (TypeError (sq @ ''<'' @ sq @ '' not supported between instances of '' @ sq @ ''NoneType'' @ sq @ '' and '' @ sq @ ''int'' @ sq))"

fun gt_zero :: "pyval \<Rightarrow> exn + bool" where
  "gt_zero (PInt i) = Inr (0 < i)"
| "gt_zero (PFloat x) = Inr (0 < x)"
| "gt_zero (PBool b) = Inr b"
| "gt_zero (PStr s) = Inl (TypeError (sq @ ''>'' @ sq @ '' not supported between instances of '' @ sq @ ''str'' @ sq @ '' and '' @ sq @ ''int'' @ sq))"
| "gt_zero PNone = Inl (TypeError (sq @ ''>'' @ sq @ '' not supported between instances of '' @ sq @ ''NoneType'' @ sq @ '' and '' @ sq @ ''int'' @ sq))"

text \<open>
  A \<^verbatim>\<open>dict\<close> keeps its keys in insertion order, which the formatting loop of
  \<^verbatim>\<open>_run\<close> follows, so it is an association list whose keys are distinct.
  \<open>dict_get\<close> is \<^verbatim>\<open>p[k]\<close>, \<open>dict_set\<close> is \<^verbatim>\<open>p[k] = v\<close> (in place for a
  key that is there, at the end for a new one), \<open>dict_del\<close> is \<^verbatim>\<open>del p[k]\<close>.
\<close>

type_synonym dict = "(string \<times> pyval) list"

fun dict_get :: "dict \<Rightarrow> string \<Rightarrow> exn + pyval" where
  "dict_get [] k = Inl (KeyError k)"
| "dict_get ((a, b) # p) k = (if a = k then Inr b else dict_get p k)"

fun dict_set :: "dict \<Rightarrow> string \<Rightarrow> pyval \<Rightarrow> dict" where
  "dict_set [] k v = [(k, v)]"
| "dict_set ((a, b) # p) k v = (if a = k then (a, v) # p else (a, b) # dict_set p k v)"

fun dict_del :: "dict \<Rightarrow> string \<Rightarrow> exn + dict" where
  "dict_del [] k = Inl (KeyError k)"
| "dict_del ((a, b) # p) k =
     (if a = k then Inr p else and_then (dict_del p k) (\<lambda>q. Inr ((a, b) # q)))"

definition keys :: "dict \<Rightarrow> string list" where
  "keys p = map fst p"

section \<open>The configuration schema\<close>

text \<open>\<^verbatim>\<open>WaveClusSorter._default_params\<close>, in the order of the source.\<close>

definition default_params :: dict where
  "default_params =
    [(''detect_threshold'', PInt 5),
     (''detect_sign'', PInt (- 1)),
     (''feature_type'', PStr ''wav''),
     (''scales'', PInt 4),
     (''min_clus'', PInt 20),
     (''maxtemp'', PFloat 0.251),
     (''template_sdnum'', PInt 3),
     (''enable_detect_filter'', PBool True),
     (''enable_sort_filter'', PBool True),
     (''detect_filter_fmin'', PInt 300),
     (''detect_filter_fmax'', PInt 3000),
     (''detect_filter_order'', PInt 4),
     (''sort_filter_fmin'', PInt 300),
     (''sort_filter_fmax'', PInt 3000),
     (''sort_filter_order'', PInt 2),
     (''mintemp'', PInt 0),
     (''w_pre'', PInt 20),
     (''w_post'', PInt 44),
     (''alignment_window'', PInt 10),
     (''stdmax'', PInt 50),
     (''max_spk'', PInt 40000),
     (''ref_ms'', PFloat 1.5),
     (''interpolation'', PBool True)]"

text \<open>
  A configuration drawn from the schema is the defaults with values replaced: it has the
  keys of the defaults, in their order, and, under each key, a value of the kind its
  description in \<^verbatim>\<open>_params_description\<close> gives: the
  sign is -1, 1 or 0, the feature type is \<^verbatim>\<open>wav\<close> or \<^verbatim>\<open>pca\<close>, the two filter
  switches and the interpolation switch are booleans, everything else is a number.
\<close>

fun is_bool :: "pyval \<Rightarrow> bool" where
  "is_bool (PBool b) = True"
| "is_bool v = False"

fun is_number :: "pyval \<Rightarrow> bool" where
  "is_number (PInt i) = True"
| "is_number (PFloat x) = True"
| "is_number v = False"

definition schema_value :: "string \<Rightarrow> pyval \<Rightarrow> bool" where
  "schema_value k v =
    (if k = ''detect_sign'' then v = PInt (- 1) \<or> v = PInt 1 \<or> v = PInt 0
     else if k = ''feature_type'' then v = PStr ''wav'' \<or> v = PStr ''pca''
     else if k = ''enable_detect_filter'' \<or> k = ''enable_sort_filter'' \<or> k = ''interpolation''
       then is_bool v
     else is_number v)"

definition schema_config :: "dict \<Rightarrow> bool" where
  "schema_config p \<longleftrightarrow>
     keys p = keys default_params \<and> list_all (\<lambda>(k, v). schema_value k v) p"

section \<open>Parameter translation\<close>

text \<open>
  Lines 153 to 174 of \<^verbatim>\<open>_run\<close>, which work on the copy \<^verbatim>\<open>p\<close> of the parameters
  and touch nothing else: the sign is recoded, each filter switch is read and deleted,
  the interpolation switch is recoded, the sampling rate is stored under \<^verbatim>\<open>sr\<close>.
\<close>

definition recode_detect_sign :: "dict \<Rightarrow> exn + dict" where
  "recode_detect_sign p =
    and_then (dict_get p ''detect_sign'') (\<lambda>s.
    and_then (lt_zero s) (\<lambda>neg.
      if neg then Inr (dict_set p ''detect_sign'' (PStr ''neg''))
      else and_then (gt_zero s) (\<lambda>pos.
        if pos then Inr (dict_set p ''detect_sign'' (PStr ''pos''))
        else Inr (dict_set p ''detect_sign'' (PStr ''both'')))))"

definition consume_enable_flag :: "string \<Rightarrow> string \<Rightarrow> dict \<Rightarrow> exn + dict" where
  "consume_enable_flag flag order_key p =
    and_then (dict_get p flag) (\<lambda>enabled.
      dict_del (if \<not> truthy enabled then dict_set p order_key (PInt 0) else p) flag)"

definition recode_interpolation :: "dict \<Rightarrow> exn + dict" where
  "recode_interpolation p =
    and_then (dict_get p ''interpolation'') (\<lambda>i.
      if truthy i then Inr (dict_set p ''interpolation'' (PStr ''y''))
      else Inr (dict_set p ''interpolation'' (PStr ''n'')))"

definition translate_params :: "real \<Rightarrow> dict \<Rightarrow> exn + dict" where
  "translate_params samplerate p =
    and_then (recode_detect_sign p) (\<lambda>p1.
    and_then (consume_enable_flag ''enable_detect_filter'' ''detect_filter_order'' p1) (\<lambda>p2.
    and_then (consume_enable_flag ''enable_sort_filter'' ''sort_filter_order'' p2) (\<lambda>p3.
    and_then (recode_interpolation p3) (\<lambda>p4.
      Inr (dict_set p4 ''sr'' (PFloat samplerate))))))"

section \<open>Strings\<close>

text \<open>\<^verbatim>\<open>s.startswith(t)\<close> and \<^verbatim>\<open>t in s\<close> on strings.\<close>

fun startswith :: "string \<Rightarrow> string \<Rightarrow> bool" where
  "startswith s [] = True"
| "startswith [] (c # cs) = False"
| "startswith (x # xs) (c # cs) = (x = c \<and> startswith xs cs)"

fun contains :: "string \<Rightarrow> string \<Rightarrow> bool" where
  "contains [] t = (t = [])"
| "contains (x # xs) t = (startswith (x # xs) t \<or> contains xs t)"

text \<open>\<^verbatim>\<open>str(n)\<close> of an integer: its decimal digits, with a minus sign below zero.\<close>

definition digit_char :: "nat \<Rightarrow> char" where
  "digit_char d = ''0123456789'' ! d"

fun str_nat :: "nat \<Rightarrow> string" where
  "str_nat n = (if n < 10 then [digit_char n] else str_nat (n div 10) @ [digit_char (n mod 10)])"

declare str_nat.simps [simp del]

definition str_int :: "int \<Rightarrow> string" where
  "str_int i = (if i < 0 then ''-'' @ str_nat (nat (- i)) else str_nat (nat i))"

section \<open>Paths, the file system and the process state\<close>

text \<open>
  \<^verbatim>\<open>pathlib.Path\<close> in its POSIX flavour: a root (empty for a relative path,
  \<^verbatim>\<open>/\<close>, or \<^verbatim>\<open>//\<close> when the text starts with exactly two slashes) and the
  components, with empty components and \<^verbatim>\<open>.\<close> dropped when the text is parsed.
  \<open>joinpath\<close> is the operator \<^verbatim>\<open>/\<close> with a string on the right.
\<close>

datatype path = PosixPath (root: string) (parts: "string list")

fun split_slash :: "string \<Rightarrow> string list" where
  "split_slash [] = [[]]"
| "split_slash (c # cs) =
     (if c = CHR ''/'' then [] # split_slash cs
      else (case split_slash cs of [] \<Rightarrow> [[c]] | x # xs \<Rightarrow> (c # x) # xs))"

fun join_slash :: "string list \<Rightarrow> string" where
  "join_slash [] = []"
| "join_slash [x] = x"
| "join_slash (x # y # ys) = x @ ''/'' @ join_slash (y # ys)"

definition Path :: "string \<Rightarrow> path" where
  "Path s =
    PosixPath
      (if startswith s ''//'' \<and> \<not> startswith s ''///'' then ''//''
       else if startswith s ''/'' then ''/'' else [])
      (filter (\<lambda>c. c \<noteq> [] \<and> c \<noteq> ''.'') (split_slash s))"

definition str_path :: "path \<Rightarrow> string" where
  "str_path p = (if root p = [] \<and> parts p = [] then ''.'' else root p @ join_slash (parts p))"

definition joinpath :: "path \<Rightarrow> string \<Rightarrow> path" where
  "joinpath p s =
    (let q = Path s in if root q \<noteq> [] then q else PosixPath (root p) (parts p @ parts q))"

text \<open>
  The state outside the adapter that the source reads and writes: the file system, as the
  answer the operating system gives for a path text (a directory, a file written by
  \<^verbatim>\<open>savemat\<close> holding \<^verbatim>\<open>data\<close> and \<^verbatim>\<open>sr\<close>, or another file); the paths it
  refuses to create or write (permissions, a full disk); the working directory; the
  environment; what was printed; \<^verbatim>\<open>sys.platform\<close>; and the class attribute
  \<^verbatim>\<open>WaveClusSorter.waveclus_path\<close>, which is process-wide state.
\<close>

datatype 's node = Dir | MatFile (data: "'s list list") (sr: real) | OtherFile string

record 's world =
  fs :: "string \<Rightarrow> 's node option"
  denied :: "string \<Rightarrow> bool"
  cwd :: string
  environ :: "string \<Rightarrow> string option"
  stdout :: "string list"
  platform :: string
  waveclus_path :: "string option"

text \<open>\<^verbatim>\<open>Path.absolute()\<close>: an absolute path is returned as it is, a relative one is
  joined to \<^verbatim>\<open>os.getcwd()\<close>; nothing is normalised or resolved.\<close>

definition absolute :: "'s world \<Rightarrow> path \<Rightarrow> path" where
  "absolute w p =
    (if root p \<noteq> [] then p
     else PosixPath (root (Path (cwd w))) (parts (Path (cwd w)) @ parts p))"

definition is_file :: "'s world \<Rightarrow> path \<Rightarrow> bool" where
  "is_file w p =
    (case fs w (str_path p) of None \<Rightarrow> False | Some Dir \<Rightarrow> False | Some f \<Rightarrow> True)"

definition os_path_exists :: "'s world \<Rightarrow> string \<Rightarrow> bool" where
  "os_path_exists w s = (fs w s \<noteq> None)"

text \<open>\<^verbatim>\<open>print(a, b, ...)\<close>: one line, the arguments separated by a space.\<close>

fun join_space :: "string list \<Rightarrow> string" where
  "join_space [] = []"
| "join_space [x] = x"
| "join_space (x # y # ys) = x @ '' '' @ join_space (y # ys)"

definition print :: "string list \<Rightarrow> 's world \<Rightarrow> 's world" where
  "print args w = w\<lparr>stdout := stdout w @ [join_space args]\<rparr>"

text \<open>\<^verbatim>\<open>os.makedirs(d, exist_ok=True)\<close>: nothing to do for a directory that is
  there, \<^verbatim>\<open>FileExistsError\<close> for a file in its place.\<close>

definition os_makedirs :: "string \<Rightarrow> 's world \<Rightarrow> (exn + unit) \<times> 's world" where
  "os_makedirs d w =
    (case fs w d of
       Some Dir \<Rightarrow> (Inr (), w)
     | Some f \<Rightarrow> (Inl (FileExistsError d), w)
     | None \<Rightarrow>
         if denied w d then (Inl (OSError d), w)
         else (Inr (), w\<lparr>fs := (fs w)(d \<mapsto> Dir)\<rparr>))"




section \<open>The installation check\<close>

text \<open>
  \<^verbatim>\<open>check_if_installed\<close> (lines 14 to 26). \<open>strip_quotes\<close> is its lines 19 and
  20: \<^verbatim>\<open>waveclus_path[1:-1]\<close> drops the first and the last character (and leaves
  the empty text for a text of one character).
\<close>

definition strip_quotes :: "string \<Rightarrow> string" where
  "strip_quotes p = (if startswith p dq then butlast (tl p) else p)"

definition check_if_installed :: "'s world \<Rightarrow> string option \<Rightarrow> bool" where
  "check_if_installed w waveclus_path0 =
    (case waveclus_path0 of
       None \<Rightarrow> False
     | Some p0 \<Rightarrow>
         (let p1 = strip_quotes p0;
              p2 = str_path (absolute w (Path p1))
          in if is_file w (joinpath (Path p2) ''wave_clus.m'') then True else False))"

text \<open>\<^verbatim>\<open>WaveClusSorter.is_installed\<close> reads the class attribute.\<close>

definition is_installed :: "'s world \<Rightarrow> bool" where
  "is_installed w = check_if_installed w (waveclus_path w)"


section \<open>The recording and its export\<close>

text \<open>
  The recording is an object of \<^verbatim>\<open>spikeextractors\<close>: it reports its channel ids, one
  sample trace per channel, the sampling rate, the number of frames and whether it is
  filtered. \<^verbatim>\<open>get_traces(channel_ids=ids)\<close> has one row per requested channel.
\<close>

record ('c, 's) recording =
  channel_ids :: "'c list"
  channel_trace :: "'c \<Rightarrow> 's list"
  sampling_frequency :: real
  num_frames :: nat
  is_filtered :: bool


definition get_num_channels :: "('c, 's) recording \<Rightarrow> nat" where
  "get_num_channels r = length (channel_ids r)"





section \<open>The scripts\<close>

text \<open>
  The formatting loop of \<^verbatim>\<open>_run\<close> (lines 186 to 199). A string is put between
  single quotes, a boolean becomes the lower-case text of \<^verbatim>\<open>True\<close> or
  \<^verbatim>\<open>False\<close>, and \<^verbatim>\<open>format\<close> prints any other value with \<^verbatim>\<open>str\<close>; the text
  Python prints for a float is a parameter.
\<close>

definition par_renames :: "(string \<times> string) list" where
  "par_renames =
    [(''detect_sign'', ''detection''), (''detect_threshold'', ''stdmin''),
     (''feature_type'', ''features''), (''detect_filter_fmin'', ''detect_fmin''),
     (''detect_filter_fmax'', ''detect_fmax''), (''detect_filter_order'', ''detect_order''),
     (''sort_filter_fmin'', ''sort_fmin''), (''sort_filter_fmax'', ''sort_fmax''),
     (''sort_filter_order'', ''sort_order'')]"

definition rename_key :: "string \<Rightarrow> string" where
  "rename_key k = (case map_of par_renames k of Some k' \<Rightarrow> k' | None \<Rightarrow> k)"

fun format_literal :: "(real \<Rightarrow> string) \<Rightarrow> pyval \<Rightarrow> string" where
  "format_literal rf (PStr s) = sq @ s @ sq"
| "format_literal rf (PBool b) = (if b then ''true'' else ''false'')"
| "format_literal rf (PInt i) = str_int i"
| "format_literal rf (PFloat x) = rf x"
| "format_literal rf PNone = ''None''"

fun format_params :: "(real \<Rightarrow> string) \<Rightarrow> dict \<Rightarrow> string" where
  "format_params rf [] = []"
| "format_params rf ((k, v) # p) =
     ''par.'' @ rename_key k @ '' = '' @ format_literal rf v @ '';'' @ format_params rf p"

text \<open>The script for the external tool (lines 203 to 216); a path that is not
  configured is printed as \<^verbatim>\<open>None\<close>.\<close>

definition matlab_script :: "string option \<Rightarrow> path \<Rightarrow> path \<Rightarrow> nat \<Rightarrow> string \<Rightarrow> string" where
  "matlab_script wc_path source_path tmpdir nChans parameters =
    ''\<newline>            addpath(genpath('' @ sq
      @ (case wc_path of None \<Rightarrow> ''None'' | Some s \<Rightarrow> s) @ sq @ ''), '' @ sq
      @ str_path source_path @ sq @ '');\<newline>            ''
      @ parameters
      @ ''\<newline>            try\<newline>                p_waveclus('' @ sq
      @ str_path tmpdir @ sq @ '', '' @ str_nat nChans
      @ '', par);\<newline>            catch\<newline>                fprintf('' @ sq
      @ ''----------------------------------------'' @ sq
      @ '');\<newline>                fprintf(lasterr());\<newline>                quit(1);\<newline>            end\<newline>            quit(0);\<newline>        ''"

text \<open>The launcher (lines 221 to 231), chosen from \<^verbatim>\<open>sys.platform\<close>.\<close>

definition windows_launcher :: "path \<Rightarrow> string" where
  "windows_launcher tmpdir =
    ''\<newline>                cd '' @ str_path tmpdir
      @ ''\<newline>                matlab -nosplash -wait -log -r run_waveclus\<newline>            ''"

definition posix_launcher :: "path \<Rightarrow> string" where
  "posix_launcher tmpdir =
    ''\<newline>                #!/bin/bash\<newline>                cd '' @ dq @ str_path tmpdir @ dq
      @ ''\<newline>                matlab -nosplash -nodisplay -log -r run_waveclus\<newline>            ''"

definition launcher_script :: "string \<Rightarrow> path \<Rightarrow> string" where
  "launcher_script sys_platform tmpdir =
    (if contains sys_platform ''win'' \<and> sys_platform \<noteq> ''darwin''
     then windows_launcher tmpdir else posix_launcher tmpdir)"

section \<open>The run\<close>

text \<open>
  What \<^verbatim>\<open>_run\<close> uses and this file does not hold is a parameter: the function
  \<^verbatim>\<open>recover_recording\<close>, the directory of the source file, the text of a float, and
  the class \<^verbatim>\<open>ShellScript\<close>, whose \<^verbatim>\<open>write\<close> stores a script and whose
  \<^verbatim>\<open>start\<close> and \<^verbatim>\<open>wait\<close> run it: the run of a script gives the exit code and the
  state the subprocess leaves, or an exception, or nothing when the subprocess never
  ends. An argument that a call does not pass is \<open>None\<close>.
\<close>

record shellscript =
  script :: string
  script_path :: string
  log_path :: "string option"
  keep_temp_files :: "bool option"
  script_verbose :: "bool option"

record ('c, 's) env =
  recover_recording :: "('c, 's) recording \<Rightarrow> ('c, 's) recording"
  source_dir :: path
  repr_float :: "real \<Rightarrow> string"
  shellscript_write :: "shellscript \<Rightarrow> 's world \<Rightarrow> (exn + unit) \<times> 's world"
  shellscript_run :: "shellscript \<Rightarrow> 's world \<Rightarrow> ((exn + int) \<times> 's world) option"

record sorter =
  params :: dict
  verbose :: bool

definition io_bind ::
  "('w \<Rightarrow> (exn + 'a) \<times> 'w) \<Rightarrow> ('a \<Rightarrow> 'w \<Rightarrow> (exn + 'b) \<times> 'w) \<Rightarrow> 'w \<Rightarrow> (exn + 'b) \<times> 'w" where
  "io_bind m f w = (case m w of (Inl e, w1) \<Rightarrow> (Inl e, w1) | (Inr x, w1) \<Rightarrow> f x w1)"

text \<open>The warning of lines 149 to 151; \<^verbatim>\<open>and\<close> and \<^verbatim>\<open>or\<close> read the second
  operand only when the first does not decide.\<close>

definition filter_warning :: string where
  "filter_warning = ''Warning! The recording is already filtered, but Wave-Clus filters are enabled. You can disable filters by setting '' @ sq @ ''enable_detect_filter'' @ sq @ '' and '' @ sq @ ''enable_sort_filter'' @ sq @ '' parameters to False''"

definition warn_if_filtered :: "('c, 's) recording \<Rightarrow> dict \<Rightarrow> 's world \<Rightarrow> (exn + unit) \<times> 's world" where
  "warn_if_filtered r p w =
    (if \<not> is_filtered r then (Inr (), w)
     else
       (case dict_get p ''enable_detect_filter'' of
          Inl e \<Rightarrow> (Inl e, w)
        | Inr a \<Rightarrow>
            if truthy a then (Inr (), print [filter_warning] w)
            else
              (case dict_get p ''enable_sort_filter'' of
                 Inl e \<Rightarrow> (Inl e, w)
               | Inr b \<Rightarrow> if truthy b then (Inr (), print [filter_warning] w) else (Inr (), w))))"

text \<open>The summary of lines 180 to 184, printed when \<^verbatim>\<open>verbose\<close> is set; the
  division by a sampling rate of zero raises.\<close>

definition verbose_summary ::
  "('c, 's) env \<Rightarrow> sorter \<Rightarrow> ('c, 's) recording \<Rightarrow> 's world \<Rightarrow> (exn + unit) \<times> 's world" where
  "verbose_summary E self r w =
    (if \<not> verbose self then (Inr (), w)
     else if sampling_frequency r = 0 then (Inl (ZeroDivisionError ''float division by zero''), w)
     else
       (Inr (),
        print [''Num. channels = '' @ str_nat (get_num_channels r)
               @ '', Num. timepoints = '' @ str_nat (num_frames r)
               @ '', duration = ''
               @ repr_float E (real (num_frames r) / sampling_frequency r / 60)
               @ '' minutes''] w))"

text \<open>\<^verbatim>\<open>_run\<close> up to the construction of the launcher (lines 144 to 233).\<close>

definition run_compose ::
  "('c, 's) env \<Rightarrow> sorter \<Rightarrow> ('c, 's) recording \<Rightarrow> path \<Rightarrow> 's world
     \<Rightarrow> (exn + shellscript) \<times> 's world" where
  "run_compose E self recording0 output_folder =
    (let recording = recover_recording E recording0;
         tmpdir = output_folder
     in
     io_bind (warn_if_filtered recording (params self)) (\<lambda>u.
     io_bind (Pair (translate_params (sampling_frequency recording) (params self))) (\<lambda>p.
     io_bind (os_makedirs (str_path tmpdir)) (\<lambda>u.
     io_bind (verbose_summary E self recording) (\<lambda>u.
     io_bind (\<lambda>w. (Inr (),
                if verbose self then print [''Running waveclus in '' @ str_path tmpdir @ ''...''] w
                else w)) (\<lambda>u.
     io_bind (\<lambda>w. (Inr (matlab_script (waveclus_path w) (source_dir E) tmpdir
                           (get_num_channels recording) (format_params (repr_float E) p)), w)) (\<lambda>cmd.
     io_bind (shellscript_write E
                \<lparr>script = cmd, script_path = str_path (joinpath tmpdir ''run_waveclus.m''),
                 log_path = None, keep_temp_files = Some True, script_verbose = None\<rparr>) (\<lambda>u.
       (\<lambda>w. (Inr \<lparr>script = launcher_script (platform w) tmpdir,
                  script_path = str_path (joinpath output_folder ''run_waveclus''),
                  log_path = Some (str_path (joinpath output_folder ''waveclus.log'')),
                  keep_temp_files = None, script_verbose = Some (verbose self)\<rparr>, w))))))))))"

text \<open>The check of lines 238 to 243 on the exit code and on the result file.\<close>

definition result_gate :: "path \<Rightarrow> int \<Rightarrow> 's world \<Rightarrow> exn + unit" where
  "result_gate tmpdir retcode w =
    (if retcode \<noteq> 0 then Inl (Exception ''waveclus returned a non-zero exit code'')
     else
       (let result_fname = str_path (joinpath tmpdir ''times_results.mat'')
        in if \<not> os_path_exists w result_fname
           then Inl (Exception (''Result file does not exist: '' @ result_fname))
           else Inr ()))"

text \<open>\<^verbatim>\<open>_run\<close>; \<open>None\<close> when the subprocess never ends.\<close>

definition run ::
  "('c, 's) env \<Rightarrow> sorter \<Rightarrow> ('c, 's) recording \<Rightarrow> path \<Rightarrow> 's world
     \<Rightarrow> ((exn + unit) \<times> 's world) option" where
  "run E self recording0 output_folder w =
    (case run_compose E self recording0 output_folder w of
       (Inl e, w1) \<Rightarrow> Some (Inl e, w1)
     | (Inr shell_cmd, w1) \<Rightarrow>
         (case shellscript_run E shell_cmd w1 of
            None \<Rightarrow> None
          | Some (Inl e, w2) \<Rightarrow> Some (Inl e, w2)
          | Some (Inr retcode, w2) \<Rightarrow> Some (result_gate output_folder retcode w2, w2)))"

section \<open>Well-formed paths and a sample installation\<close>

text \<open>
  What parsing guarantees of a path: the root is empty, \<^verbatim>\<open>/\<close> or \<^verbatim>\<open>//\<close>, and no
  component is empty, is \<^verbatim>\<open>.\<close> or holds a slash.
\<close>

definition wf_part :: "string \<Rightarrow> bool" where
  "wf_part c \<longleftrightarrow> c \<noteq> [] \<and> c \<noteq> ''.'' \<and> CHR ''/'' \<notin> set c"

definition wf_path :: "path \<Rightarrow> bool" where
  "wf_path q \<longleftrightarrow>
     (root q = [] \<or> root q = ''/'' \<or> root q = ''//'') \<and> list_all wf_part (parts q)"

text \<open>
  A sample state and run, on which the theorems below are exercised: the tool is
  installed under \<^verbatim>\<open>/opt/wave_clus\<close>, the recording has the channel ids 2, 5 and 9,
  the sorter has the default parameters, scripts are stored as they are, and the
  subprocess ends with a given exit code, writing the result file or not.
\<close>

definition example_world :: "int world" where
  "example_world =
    \<lparr>fs = [''/opt/wave_clus'' \<mapsto> Dir, ''/opt/wave_clus/wave_clus.m'' \<mapsto> OtherFile []],
     denied = (\<lambda>s. False),
     cwd = ''/home/user'',
     environ = Map.empty,
     stdout = [],
     platform = ''linux'',
     waveclus_path = Some ''/opt/wave_clus''\<rparr>"

definition example_recording :: "(nat, int) recording" where
  "example_recording =
    \<lparr>channel_ids = [2, 5, 9],
     channel_trace = (\<lambda>c. [int c, 10 + int c, - int c]),
     sampling_frequency = 30000,
     num_frames = 3,
     is_filtered = False\<rparr>"

definition example_sorter :: sorter where
  "example_sorter = \<lparr>params = default_params, verbose = False\<rparr>"

definition example_env :: "int \<Rightarrow> bool \<Rightarrow> (nat, int) env" where
  "example_env retcode writes_result =
    \<lparr>recover_recording = (\<lambda>r. r),
     source_dir = Path ''/lib/spikesorters/waveclus'',
     repr_float = (\<lambda>x. if x = 30000 then ''30000.0'' else if x = 1.5 then ''1.5'' else ''0.251''),
     shellscript_write =
       (\<lambda>sc w. (Inr (), w\<lparr>fs := (fs w)(script_path sc \<mapsto> OtherFile (script sc))\<rparr>)),
     shellscript_run =
       (\<lambda>sc w. Some (Inr retcode,
          if writes_result
          then w\<lparr>fs := (fs w)(''/tmp/wc_out/times_results.mat'' \<mapsto> OtherFile [])\<rparr>
          else w))\<rparr>"

text \<open>
  A state with two directories, \<^verbatim>\<open>/opt/wc\<close> holding the marker file and
  \<^verbatim>\<open>/opt/wc2\<close> not holding it, and a configured path that is \<^verbatim>\<open>/opt/wc2\<close>
  after a stray opening quote.
\<close>

definition stray_quote_world :: "int world" where
  "stray_quote_world =
    \<lparr>fs = [''/opt/wc'' \<mapsto> Dir, ''/opt/wc/wave_clus.m'' \<mapsto> OtherFile [], ''/opt/wc2'' \<mapsto> Dir],
     denied = (\<lambda>s. False),
     cwd = ''/home/user'',
     environ = Map.empty,
     stdout = [],
     platform = ''linux'',
     waveclus_path = Some (dq @ ''/opt/wc2'')\<rparr>"

section \<open>Strings and paths: basic facts\<close>

lemma startswith_iff: "startswith s t \<longleftrightarrow> (\<exists>r. s = t @ r)"
  by (induction s t rule: startswith.induct) auto

lemma contains_iff: "contains s t \<longleftrightarrow> (\<exists>a b. s = a @ t @ b)"
proof (induction s)
  case Nil
  then show ?case by simp
next
  case (Cons x xs)
  show ?case
  proof
    assume "contains (x # xs) t"
    then consider "startswith (x # xs) t" | "contains xs t" by auto
    then show "\<exists>a b. x # xs = a @ t @ b"
    proof cases
      case 1
      then obtain r where "x # xs = t @ r" by (auto simp: startswith_iff)
      then have "x # xs = [] @ t @ r" by simp
      then show ?thesis by blast
    next
      case 2
      then obtain a b where "xs = a @ t @ b" using Cons.IH by blast
      then have "x # xs = (x # a) @ t @ b" by simp
      then show ?thesis by blast
    qed
  next
    assume "\<exists>a b. x # xs = a @ t @ b"
    then obtain a b where ab: "x # xs = a @ t @ b" by blast
    show "contains (x # xs) t"
    proof (cases a)
      case Nil
      with ab have "startswith (x # xs) t" by (auto simp: startswith_iff)
      then show ?thesis by simp
    next
      case (Cons y ys)
      with ab have "xs = ys @ t @ b" by simp
      then have "contains xs t" using Cons.IH by blast
      then show ?thesis by simp
    qed
  qed
qed






lemma split_slash_not_Nil: "split_slash s \<noteq> []"
  by (induction s) (auto split: list.splits)

lemma split_slash_no_slash: "CHR ''/'' \<notin> set s \<Longrightarrow> split_slash s = [s]"
  by (induction s) auto








lemma Path_simple: "wf_part n \<Longrightarrow> Path n = PosixPath [] [n]"
  by (cases n) (auto simp: Path_def wf_part_def split_slash_no_slash)

lemma joinpath_simple: "wf_part n \<Longrightarrow> joinpath p n = PosixPath (root p) (parts p @ [n])"
  by (simp add: joinpath_def Path_simple)

lemma join_slash_snoc:
  "join_slash (ps @ [n]) = (if ps = [] then n else join_slash ps @ ''/'' @ n)"
  by (induction ps rule: join_slash.induct) auto

lemma str_path_joinpath:
  "wf_part n \<Longrightarrow>
   str_path (joinpath p n) = root p @ (if parts p = [] then n else join_slash (parts p) @ ''/'' @ n)"
  by (simp add: joinpath_simple str_path_def join_slash_snoc)



lemma wf_path_joinpath: "wf_path p \<Longrightarrow> wf_part n \<Longrightarrow> wf_path (joinpath p n)"
  by (simp add: joinpath_simple wf_path_def)



section \<open>The launcher branch\<close>

lemma launchers_differ: "windows_launcher tmpdir \<noteq> posix_launcher tmpdir"
  by (simp add: windows_launcher_def posix_launcher_def)

text \<open>
  C2. For every platform identifier the composer takes the Windows launcher exactly when
  the identifier contains \<^verbatim>\<open>win\<close> and is not \<^verbatim>\<open>darwin\<close>, and the shell-script
  launcher otherwise; \<^verbatim>\<open>darwin\<close> contains \<^verbatim>\<open>win\<close> and gets the shell-script
  launcher.
\<close>

theorem launcher_platform_branch:
  "(launcher_script sys_platform tmpdir = windows_launcher tmpdir
      \<longleftrightarrow> (\<exists>a b. sys_platform = a @ ''win'' @ b) \<and> sys_platform \<noteq> ''darwin'')
   \<and> (launcher_script sys_platform tmpdir = posix_launcher tmpdir
      \<longleftrightarrow> \<not> ((\<exists>a b. sys_platform = a @ ''win'' @ b) \<and> sys_platform \<noteq> ''darwin''))
   \<and> (\<exists>a b. ''darwin'' = a @ ''win'' @ b)
   \<and> launcher_script ''darwin'' tmpdir = posix_launcher tmpdir"
proof -
  have d: "''darwin'' = ''dar'' @ ''win'' @ []" by simp
  have "\<exists>a b. ''darwin'' = a @ ''win'' @ b" using d by blast
  then show ?thesis
    using launchers_differ [of tmpdir]
    by (auto simp: launcher_script_def contains_iff)
qed

theorem launcher_platform_branch_examples:
  "launcher_script ''win32'' (Path ''/tmp/wc_out'') = windows_launcher (Path ''/tmp/wc_out'')
   \<and> launcher_script ''linux'' (Path ''/tmp/wc_out'') = posix_launcher (Path ''/tmp/wc_out'')
   \<and> launcher_script ''darwin'' (Path ''/tmp/wc_out'') = posix_launcher (Path ''/tmp/wc_out'')"
proof -
  have w: "\<exists>a b. ''win32'' = a @ ''win'' @ b"
  proof -
    have "''win32'' = [] @ ''win'' @ ''32''" by simp
    then show ?thesis by blast
  qed
  have l: "\<not> contains ''linux'' ''win''" by simp
  show ?thesis
    using launcher_platform_branch [of "''win32''" "Path ''/tmp/wc_out''"]
      launcher_platform_branch [of "''linux''" "Path ''/tmp/wc_out''"]
      launcher_platform_branch [of "''darwin''" "Path ''/tmp/wc_out''"] w l
    by (simp add: contains_iff)
qed

section \<open>The translation of a schema configuration, written out\<close>

lemma map_fst_eq_Cons: "map fst p = k # ks \<longleftrightarrow> (\<exists>v q. p = (k, v) # q \<and> map fst q = ks)"
  by (cases p) auto

lemma schema_shape:
  assumes "keys p = keys default_params"
  shows "\<exists>v1 v2 v3 v4 v5 v6 v7 v8 v9 v10 v11 v12 v13 v14 v15 v16 v17 v18 v19 v20 v21 v22 v23.
    p = [(''detect_threshold'', v1),
         (''detect_sign'', v2),
         (''feature_type'', v3),
         (''scales'', v4),
         (''min_clus'', v5),
         (''maxtemp'', v6),
         (''template_sdnum'', v7),
         (''enable_detect_filter'', v8),
         (''enable_sort_filter'', v9),
         (''detect_filter_fmin'', v10),
         (''detect_filter_fmax'', v11),
         (''detect_filter_order'', v12),
         (''sort_filter_fmin'', v13),
         (''sort_filter_fmax'', v14),
         (''sort_filter_order'', v15),
         (''mintemp'', v16),
         (''w_pre'', v17),
         (''w_post'', v18),
         (''alignment_window'', v19),
         (''stdmax'', v20),
         (''max_spk'', v21),
         (''ref_ms'', v22),
         (''interpolation'', v23)]"
  using assms unfolding keys_def default_params_def list.map fst_conv map_fst_eq_Cons
  by (elim exE conjE) simp

lemma recode_detect_sign_second:
  "recode_detect_sign ((''detect_threshold'', v1) # (''detect_sign'', PInt i) # rest)
     = Inr ((''detect_threshold'', v1)
         # (''detect_sign'', PStr (if i < 0 then ''neg'' else if 0 < i then ''pos'' else ''both''))
         # rest)"
  by (simp add: recode_detect_sign_def and_then_def)

lemma consume_detect_flag:
  "consume_enable_flag ''enable_detect_filter'' ''detect_filter_order''
     [(''detect_threshold'', v1),
     (''detect_sign'', v2),
     (''feature_type'', v3),
     (''scales'', v4),
     (''min_clus'', v5),
     (''maxtemp'', v6),
     (''template_sdnum'', v7),
     (''enable_detect_filter'', PBool b8),
     (''enable_sort_filter'', v9),
     (''detect_filter_fmin'', v10),
     (''detect_filter_fmax'', v11),
     (''detect_filter_order'', v12),
     (''sort_filter_fmin'', v13),
     (''sort_filter_fmax'', v14),
     (''sort_filter_order'', v15),
     (''mintemp'', v16),
     (''w_pre'', v17),
     (''w_post'', v18),
     (''alignment_window'', v19),
     (''stdmax'', v20),
     (''max_spk'', v21),
     (''ref_ms'', v22),
     (''interpolation'', v23)]
   = Inr
     [(''detect_threshold'', v1),
     (''detect_sign'', v2),
     (''feature_type'', v3),
     (''scales'', v4),
     (''min_clus'', v5),
     (''maxtemp'', v6),
     (''template_sdnum'', v7),
     (''enable_sort_filter'', v9),
     (''detect_filter_fmin'', v10),
     (''detect_filter_fmax'', v11),
     (''detect_filter_order'', if b8 then v12 else PInt 0),
     (''sort_filter_fmin'', v13),
     (''sort_filter_fmax'', v14),
     (''sort_filter_order'', v15),
     (''mintemp'', v16),
     (''w_pre'', v17),
     (''w_post'', v18),
     (''alignment_window'', v19),
     (''stdmax'', v20),
     (''max_spk'', v21),
     (''ref_ms'', v22),
     (''interpolation'', v23)]"
  by (cases b8) (simp_all add: consume_enable_flag_def and_then_def)

lemma consume_sort_flag:
  "consume_enable_flag ''enable_sort_filter'' ''sort_filter_order''
     [(''detect_threshold'', v1),
     (''detect_sign'', v2),
     (''feature_type'', v3),
     (''scales'', v4),
     (''min_clus'', v5),
     (''maxtemp'', v6),
     (''template_sdnum'', v7),
     (''enable_sort_filter'', PBool b9),
     (''detect_filter_fmin'', v10),
     (''detect_filter_fmax'', v11),
     (''detect_filter_order'', v12),
     (''sort_filter_fmin'', v13),
     (''sort_filter_fmax'', v14),
     (''sort_filter_order'', v15),
     (''mintemp'', v16),
     (''w_pre'', v17),
     (''w_post'', v18),
     (''alignment_window'', v19),
     (''stdmax'', v20),
     (''max_spk'', v21),
     (''ref_ms'', v22),
     (''interpolation'', v23)]
   = Inr
     [(''detect_threshold'', v1),
     (''detect_sign'', v2),
     (''feature_type'', v3),
     (''scales'', v4),
     (''min_clus'', v5),
     (''maxtemp'', v6),
     (''template_sdnum'', v7),
     (''detect_filter_fmin'', v10),
     (''detect_filter_fmax'', v11),
     (''detect_filter_order'', v12),
     (''sort_filter_fmin'', v13),
     (''sort_filter_fmax'', v14),
     (''sort_filter_order'', if b9 then v15 else PInt 0),
     (''mintemp'', v16),
     (''w_pre'', v17),
     (''w_post'', v18),
     (''alignment_window'', v19),
     (''stdmax'', v20),
     (''max_spk'', v21),
     (''ref_ms'', v22),
     (''interpolation'', v23)]"
  by (cases b9) (simp_all add: consume_enable_flag_def and_then_def)

lemma recode_interpolation_last:
  "recode_interpolation
     [(''detect_threshold'', v1),
     (''detect_sign'', v2),
     (''feature_type'', v3),
     (''scales'', v4),
     (''min_clus'', v5),
     (''maxtemp'', v6),
     (''template_sdnum'', v7),
     (''detect_filter_fmin'', v10),
     (''detect_filter_fmax'', v11),
     (''detect_filter_order'', v12),
     (''sort_filter_fmin'', v13),
     (''sort_filter_fmax'', v14),
     (''sort_filter_order'', v15),
     (''mintemp'', v16),
     (''w_pre'', v17),
     (''w_post'', v18),
     (''alignment_window'', v19),
     (''stdmax'', v20),
     (''max_spk'', v21),
     (''ref_ms'', v22),
     (''interpolation'', PBool b23)]
   = Inr
     [(''detect_threshold'', v1),
     (''detect_sign'', v2),
     (''feature_type'', v3),
     (''scales'', v4),
     (''min_clus'', v5),
     (''maxtemp'', v6),
     (''template_sdnum'', v7),
     (''detect_filter_fmin'', v10),
     (''detect_filter_fmax'', v11),
     (''detect_filter_order'', v12),
     (''sort_filter_fmin'', v13),
     (''sort_filter_fmax'', v14),
     (''sort_filter_order'', v15),
     (''mintemp'', v16),
     (''w_pre'', v17),
     (''w_post'', v18),
     (''alignment_window'', v19),
     (''stdmax'', v20),
     (''max_spk'', v21),
     (''ref_ms'', v22),
     (''interpolation'', PStr (if b23 then ''y'' else ''n''))]"
  by (cases b23) (simp_all add: recode_interpolation_def and_then_def)

lemma store_sampling_rate:
  "dict_set
     [(''detect_threshold'', v1),
     (''detect_sign'', v2),
     (''feature_type'', v3),
     (''scales'', v4),
     (''min_clus'', v5),
     (''maxtemp'', v6),
     (''template_sdnum'', v7),
     (''detect_filter_fmin'', v10),
     (''detect_filter_fmax'', v11),
     (''detect_filter_order'', v12),
     (''sort_filter_fmin'', v13),
     (''sort_filter_fmax'', v14),
     (''sort_filter_order'', v15),
     (''mintemp'', v16),
     (''w_pre'', v17),
     (''w_post'', v18),
     (''alignment_window'', v19),
     (''stdmax'', v20),
     (''max_spk'', v21),
     (''ref_ms'', v22),
     (''interpolation'', v23)]
     ''sr'' x
   = [(''detect_threshold'', v1),
     (''detect_sign'', v2),
     (''feature_type'', v3),
     (''scales'', v4),
     (''min_clus'', v5),
     (''maxtemp'', v6),
     (''template_sdnum'', v7),
     (''detect_filter_fmin'', v10),
     (''detect_filter_fmax'', v11),
     (''detect_filter_order'', v12),
     (''sort_filter_fmin'', v13),
     (''sort_filter_fmax'', v14),
     (''sort_filter_order'', v15),
     (''mintemp'', v16),
     (''w_pre'', v17),
     (''w_post'', v18),
     (''alignment_window'', v19),
     (''stdmax'', v20),
     (''max_spk'', v21),
     (''ref_ms'', v22),
     (''interpolation'', v23),
     (''sr'', x)]"
  by simp

lemma translate_schema:
  assumes "schema_config p"
  shows "\<exists>v1 i v3 v4 v5 v6 v7 b8 b9 v10 v11 v12 v13 v14 v15 v16 v17 v18 v19 v20 v21 v22 b23 t o12 o15 y.
    p = [(''detect_threshold'', v1),
         (''detect_sign'', PInt i),
         (''feature_type'', v3),
         (''scales'', v4),
         (''min_clus'', v5),
         (''maxtemp'', v6),
         (''template_sdnum'', v7),
         (''enable_detect_filter'', PBool b8),
         (''enable_sort_filter'', PBool b9),
         (''detect_filter_fmin'', v10),
         (''detect_filter_fmax'', v11),
         (''detect_filter_order'', v12),
         (''sort_filter_fmin'', v13),
         (''sort_filter_fmax'', v14),
         (''sort_filter_order'', v15),
         (''mintemp'', v16),
         (''w_pre'', v17),
         (''w_post'', v18),
         (''alignment_window'', v19),
         (''stdmax'', v20),
         (''max_spk'', v21),
         (''ref_ms'', v22),
         (''interpolation'', PBool b23)]
    \<and> translate_params samplerate p = Inr
        [(''detect_threshold'', v1),
         (''detect_sign'', PStr t),
         (''feature_type'', v3),
         (''scales'', v4),
         (''min_clus'', v5),
         (''maxtemp'', v6),
         (''template_sdnum'', v7),
         (''detect_filter_fmin'', v10),
         (''detect_filter_fmax'', v11),
         (''detect_filter_order'', o12),
         (''sort_filter_fmin'', v13),
         (''sort_filter_fmax'', v14),
         (''sort_filter_order'', o15),
         (''mintemp'', v16),
         (''w_pre'', v17),
         (''w_post'', v18),
         (''alignment_window'', v19),
         (''stdmax'', v20),
         (''max_spk'', v21),
         (''ref_ms'', v22),
         (''interpolation'', PStr y),
         (''sr'', PFloat samplerate)]
    \<and> (i = - 1 \<or> i = 1 \<or> i = 0)
    \<and> (i = - 1 \<longrightarrow> t = ''neg'') \<and> (i = 1 \<longrightarrow> t = ''pos'') \<and> (i = 0 \<longrightarrow> t = ''both'')
    \<and> (t = ''neg'' \<or> t = ''pos'' \<or> t = ''both'')
    \<and> (v3 = PStr ''wav'' \<or> v3 = PStr ''pca'')
    \<and> (y = ''y'' \<or> y = ''n'')
    \<and> o12 = (if b8 then v12 else PInt 0) \<and> o15 = (if b9 then v15 else PInt 0)
    \<and> y = (if b23 then ''y'' else ''n'')
    \<and> is_number v1 \<and> is_number v4 \<and> is_number v5 \<and> is_number v6 \<and> is_number v7 \<and> is_number v10 \<and> is_number v11 \<and> is_number v12 \<and> is_number v13 \<and> is_number v14 \<and> is_number v15 \<and> is_number v16 \<and> is_number v17 \<and> is_number v18 \<and> is_number v19 \<and> is_number v20 \<and> is_number v21 \<and> is_number v22"
proof -
  from assms have k: "keys p = keys default_params"
    and a: "list_all (\<lambda>(k, v). schema_value k v) p"
    by (simp_all add: schema_config_def)
  from schema_shape [OF k] obtain v1 v2 v3 v4 v5 v6 v7 v8 v9 v10 v11 v12 v13 v14 v15 v16 v17 v18 v19 v20 v21 v22 v23 where
    p: "p = [(''detect_threshold'', v1),
         (''detect_sign'', v2),
         (''feature_type'', v3),
         (''scales'', v4),
         (''min_clus'', v5),
         (''maxtemp'', v6),
         (''template_sdnum'', v7),
         (''enable_detect_filter'', v8),
         (''enable_sort_filter'', v9),
         (''detect_filter_fmin'', v10),
         (''detect_filter_fmax'', v11),
         (''detect_filter_order'', v12),
         (''sort_filter_fmin'', v13),
         (''sort_filter_fmax'', v14),
         (''sort_filter_order'', v15),
         (''mintemp'', v16),
         (''w_pre'', v17),
         (''w_post'', v18),
         (''alignment_window'', v19),
         (''stdmax'', v20),
         (''max_spk'', v21),
         (''ref_ms'', v22),
         (''interpolation'', v23)]"
    by (elim exE) (erule that)
  from a have c: "v2 = PInt (- 1) \<or> v2 = PInt 1 \<or> v2 = PInt 0"
    "v3 = PStr ''wav'' \<or> v3 = PStr ''pca''"
    "is_bool v8" "is_bool v9" "is_bool v23"
    "is_number v1" "is_number v4" "is_number v5" "is_number v6" "is_number v7" "is_number v10" "is_number v11" "is_number v12" "is_number v13" "is_number v14" "is_number v15" "is_number v16" "is_number v17" "is_number v18" "is_number v19" "is_number v20" "is_number v21" "is_number v22"
    unfolding p by (simp_all add: schema_value_def)
  from c(1) obtain i where i: "v2 = PInt i" "i = - 1 \<or> i = 1 \<or> i = 0" by blast
  from c(3) obtain b8 where b8: "v8 = PBool b8" by (cases v8) simp_all
  from c(4) obtain b9 where b9: "v9 = PBool b9" by (cases v9) simp_all
  from c(5) obtain b23 where b23: "v23 = PBool b23" by (cases v23) simp_all
  define t where "t = (if i < 0 then ''neg'' else if 0 < i then ''pos'' else ''both'')"
  define o12 where "o12 = (if b8 then v12 else PInt 0)"
  define o15 where "o15 = (if b9 then v15 else PInt 0)"
  define y where "y = (if b23 then ''y'' else ''n'')"
  have tr: "translate_params samplerate p = Inr
        [(''detect_threshold'', v1),
         (''detect_sign'', PStr t),
         (''feature_type'', v3),
         (''scales'', v4),
         (''min_clus'', v5),
         (''maxtemp'', v6),
         (''template_sdnum'', v7),
         (''detect_filter_fmin'', v10),
         (''detect_filter_fmax'', v11),
         (''detect_filter_order'', o12),
         (''sort_filter_fmin'', v13),
         (''sort_filter_fmax'', v14),
         (''sort_filter_order'', o15),
         (''mintemp'', v16),
         (''w_pre'', v17),
         (''w_post'', v18),
         (''alignment_window'', v19),
         (''stdmax'', v20),
         (''max_spk'', v21),
         (''ref_ms'', v22),
         (''interpolation'', PStr y),
         (''sr'', PFloat samplerate)]"
    unfolding p i b8 b9 b23 translate_params_def recode_detect_sign_second
      t_def [symmetric] o12_def [symmetric] o15_def [symmetric] y_def [symmetric]
    by (simp only: and_then_def sum.case consume_detect_flag consume_sort_flag
          recode_interpolation_last store_sampling_rate
          t_def [symmetric] o12_def [symmetric] o15_def [symmetric] y_def [symmetric])
  have t: "i = - 1 \<longrightarrow> t = ''neg''" "i = 1 \<longrightarrow> t = ''pos''" "i = 0 \<longrightarrow> t = ''both''"
    "t = ''neg'' \<or> t = ''pos'' \<or> t = ''both''"
    by (simp_all add: t_def)
  have y: "y = ''y'' \<or> y = ''n''" by (simp add: y_def)
  note p' = p [unfolded i b8 b9 b23]
  show ?thesis
    apply (intro exI conjI)
    apply (rule p')
    apply (rule tr)
    apply (rule i(2))
    apply (rule t(1))
    apply (rule t(2))
    apply (rule t(3))
    apply (rule t(4))
    apply (rule c(2))
    apply (rule y)
    apply (rule o12_def)
    apply (rule o15_def)
    apply (rule y_def)
    apply (rule c(6))
    apply (rule c(7))
    apply (rule c(8))
    apply (rule c(9))
    apply (rule c(10))
    apply (rule c(11))
    apply (rule c(12))
    apply (rule c(13))
    apply (rule c(14))
    apply (rule c(15))
    apply (rule c(16))
    apply (rule c(17))
    apply (rule c(18))
    apply (rule c(19))
    apply (rule c(20))
    apply (rule c(21))
    apply (rule c(22))
    apply (rule c(23))
    done
qed

section \<open>Claims about the parameter translation\<close>

lemma is_number_not_str: "is_number v \<Longrightarrow> v \<noteq> PStr s"
  by (cases v) simp_all


lemma schema_config_default: "schema_config default_params"
  by (simp add: schema_config_def default_params_def schema_value_def)

text \<open>
  C3. For every configuration drawn from the schema the translation succeeds, and the
  translated set has neither \<^verbatim>\<open>enable_detect_filter\<close> nor
  \<^verbatim>\<open>enable_sort_filter\<close> among its keys, holds no integer under
  \<^verbatim>\<open>detect_sign\<close>, holds one of the three sign tokens in exactly one entry (the
  one of \<^verbatim>\<open>detect_sign\<close>), and holds the filter order zero for each stage whose
  switch was false.
\<close>

theorem translated_set_invariant:
  assumes "schema_config p"
  shows "\<exists>q. translate_params samplerate p = Inr q
    \<and> ''enable_detect_filter'' \<notin> set (keys q)
    \<and> ''enable_sort_filter'' \<notin> set (keys q)
    \<and> (\<forall>i. dict_get q ''detect_sign'' \<noteq> Inr (PInt i))
    \<and> (\<exists>t. (t = ''neg'' \<or> t = ''pos'' \<or> t = ''both'')
          \<and> filter (\<lambda>(k, v). v = PStr ''neg'' \<or> v = PStr ''pos'' \<or> v = PStr ''both'') q
              = [(''detect_sign'', PStr t)])
    \<and> (dict_get p ''enable_detect_filter'' = Inr (PBool False)
          \<longrightarrow> dict_get q ''detect_filter_order'' = Inr (PInt 0))
    \<and> (dict_get p ''enable_sort_filter'' = Inr (PBool False)
          \<longrightarrow> dict_get q ''sort_filter_order'' = Inr (PInt 0))"
proof -
  from translate_schema [OF assms, of samplerate]
  obtain v1 i v3 v4 v5 v6 v7 b8 b9 v10 v11 v12 v13 v14 v15 v16 v17 v18 v19 v20 v21 v22 b23
    t o12 o15 y
    where p: "p = [(''detect_threshold'', v1),
         (''detect_sign'', PInt i),
         (''feature_type'', v3),
         (''scales'', v4),
         (''min_clus'', v5),
         (''maxtemp'', v6),
         (''template_sdnum'', v7),
         (''enable_detect_filter'', PBool b8),
         (''enable_sort_filter'', PBool b9),
         (''detect_filter_fmin'', v10),
         (''detect_filter_fmax'', v11),
         (''detect_filter_order'', v12),
         (''sort_filter_fmin'', v13),
         (''sort_filter_fmax'', v14),
         (''sort_filter_order'', v15),
         (''mintemp'', v16),
         (''w_pre'', v17),
         (''w_post'', v18),
         (''alignment_window'', v19),
         (''stdmax'', v20),
         (''max_spk'', v21),
         (''ref_ms'', v22),
         (''interpolation'', PBool b23)]"
    and tr: "translate_params samplerate p = Inr
        [(''detect_threshold'', v1),
         (''detect_sign'', PStr t),
         (''feature_type'', v3),
         (''scales'', v4),
         (''min_clus'', v5),
         (''maxtemp'', v6),
         (''template_sdnum'', v7),
         (''detect_filter_fmin'', v10),
         (''detect_filter_fmax'', v11),
         (''detect_filter_order'', o12),
         (''sort_filter_fmin'', v13),
         (''sort_filter_fmax'', v14),
         (''sort_filter_order'', o15),
         (''mintemp'', v16),
         (''w_pre'', v17),
         (''w_post'', v18),
         (''alignment_window'', v19),
         (''stdmax'', v20),
         (''max_spk'', v21),
         (''ref_ms'', v22),
         (''interpolation'', PStr y),
         (''sr'', PFloat samplerate)]"
    and t: "t = ''neg'' \<or> t = ''pos'' \<or> t = ''both''"
    and v3: "v3 = PStr ''wav'' \<or> v3 = PStr ''pca''"
    and y: "y = ''y'' \<or> y = ''n''"
    and o: "o12 = (if b8 then v12 else PInt 0)" "o15 = (if b9 then v15 else PInt 0)"
    and n: "is_number v1" "is_number v4" "is_number v5" "is_number v6" "is_number v7" "is_number v10" "is_number v11" "is_number v12" "is_number v13" "is_number v14" "is_number v15" "is_number v16" "is_number v17" "is_number v18" "is_number v19" "is_number v20" "is_number v21" "is_number v22"
    by (elim exE conjE) (erule that; assumption)
  define q where "q = [(''detect_threshold'', v1),
         (''detect_sign'', PStr t),
         (''feature_type'', v3),
         (''scales'', v4),
         (''min_clus'', v5),
         (''maxtemp'', v6),
         (''template_sdnum'', v7),
         (''detect_filter_fmin'', v10),
         (''detect_filter_fmax'', v11),
         (''detect_filter_order'', o12),
         (''sort_filter_fmin'', v13),
         (''sort_filter_fmax'', v14),
         (''sort_filter_order'', o15),
         (''mintemp'', v16),
         (''w_pre'', v17),
         (''w_post'', v18),
         (''alignment_window'', v19),
         (''stdmax'', v20),
         (''max_spk'', v21),
         (''ref_ms'', v22),
         (''interpolation'', PStr y),
         (''sr'', PFloat samplerate)]"
  note q = q_def
  note tr = tr [folded q_def]
  have on: "is_number o12" "is_number o15" using o n by simp_all
  have k1: "''enable_detect_filter'' \<notin> set (keys q)" by (simp add: q keys_def)
  have k2: "''enable_sort_filter'' \<notin> set (keys q)" by (simp add: q keys_def)
  have s1: "\<forall>i. dict_get q ''detect_sign'' \<noteq> Inr (PInt i)" by (simp add: q)
  have s2: "filter (\<lambda>(k, v). v = PStr ''neg'' \<or> v = PStr ''pos'' \<or> v = PStr ''both'') q
              = [(''detect_sign'', PStr t)]"
  proof -
    have v3': "v3 \<noteq> PStr ''neg''" "v3 \<noteq> PStr ''pos''" "v3 \<noteq> PStr ''both''"
      using v3 by auto
    have y': "y \<noteq> ''neg''" "y \<noteq> ''pos''" "y \<noteq> ''both''"
      using y by auto
    show ?thesis
      unfolding q using n on t by (simp add: is_number_not_str v3' y')
  qed
  have f1: "dict_get p ''enable_detect_filter'' = Inr (PBool False)
          \<longrightarrow> dict_get q ''detect_filter_order'' = Inr (PInt 0)"
    using o by (simp add: p q)
  have f2: "dict_get p ''enable_sort_filter'' = Inr (PBool False)
          \<longrightarrow> dict_get q ''sort_filter_order'' = Inr (PInt 0)"
    using o by (simp add: p q)
  from tr k1 k2 s1 s2 t f1 f2 show ?thesis by blast
qed

theorem translated_set_invariant_example:
  "schema_config (dict_set (dict_set default_params ''enable_detect_filter'' (PBool False))
       ''enable_sort_filter'' (PBool False))
   \<and> (\<exists>q. translate_params 30000
          (dict_set (dict_set default_params ''enable_detect_filter'' (PBool False))
             ''enable_sort_filter'' (PBool False)) = Inr q
        \<and> ''enable_detect_filter'' \<notin> set (keys q)
        \<and> ''enable_sort_filter'' \<notin> set (keys q)
        \<and> dict_get q ''detect_filter_order'' = Inr (PInt 0)
        \<and> dict_get q ''sort_filter_order'' = Inr (PInt 0))"
proof -
  let ?c = "dict_set (dict_set default_params ''enable_detect_filter'' (PBool False))
       ''enable_sort_filter'' (PBool False)"
  have s: "schema_config ?c"
    by (simp add: schema_config_def default_params_def schema_value_def keys_def)
  have g1: "dict_get ?c ''enable_detect_filter'' = Inr (PBool False)"
    by (simp add: default_params_def)
  have g2: "dict_get ?c ''enable_sort_filter'' = Inr (PBool False)"
    by (simp add: default_params_def)
  show ?thesis
    using translated_set_invariant [OF s, of 30000] s g1 g2 by blast
qed

text \<open>
  C4. The translation turns the sign -1 into \<^verbatim>\<open>neg\<close>, the sign 1 into
  \<^verbatim>\<open>pos\<close> and the sign 0 into \<^verbatim>\<open>both\<close>, and a schema configuration has
  one of these three signs.
\<close>

theorem detect_sign_recoding:
  assumes "schema_config p"
  shows "\<exists>q. translate_params samplerate p = Inr q
    \<and> (dict_get p ''detect_sign'' = Inr (PInt (- 1))
          \<longrightarrow> dict_get q ''detect_sign'' = Inr (PStr ''neg''))
    \<and> (dict_get p ''detect_sign'' = Inr (PInt 1)
          \<longrightarrow> dict_get q ''detect_sign'' = Inr (PStr ''pos''))
    \<and> (dict_get p ''detect_sign'' = Inr (PInt 0)
          \<longrightarrow> dict_get q ''detect_sign'' = Inr (PStr ''both''))
    \<and> (dict_get p ''detect_sign'' = Inr (PInt (- 1))
          \<or> dict_get p ''detect_sign'' = Inr (PInt 1)
          \<or> dict_get p ''detect_sign'' = Inr (PInt 0))"
proof -
  from translate_schema [OF assms, of samplerate]
  obtain v1 i v3 v4 v5 v6 v7 b8 b9 v10 v11 v12 v13 v14 v15 v16 v17 v18 v19 v20 v21 v22 b23
    t o12 o15 y
    where p: "p = [(''detect_threshold'', v1),
         (''detect_sign'', PInt i),
         (''feature_type'', v3),
         (''scales'', v4),
         (''min_clus'', v5),
         (''maxtemp'', v6),
         (''template_sdnum'', v7),
         (''enable_detect_filter'', PBool b8),
         (''enable_sort_filter'', PBool b9),
         (''detect_filter_fmin'', v10),
         (''detect_filter_fmax'', v11),
         (''detect_filter_order'', v12),
         (''sort_filter_fmin'', v13),
         (''sort_filter_fmax'', v14),
         (''sort_filter_order'', v15),
         (''mintemp'', v16),
         (''w_pre'', v17),
         (''w_post'', v18),
         (''alignment_window'', v19),
         (''stdmax'', v20),
         (''max_spk'', v21),
         (''ref_ms'', v22),
         (''interpolation'', PBool b23)]"
    and tr: "translate_params samplerate p = Inr
        [(''detect_threshold'', v1),
         (''detect_sign'', PStr t),
         (''feature_type'', v3),
         (''scales'', v4),
         (''min_clus'', v5),
         (''maxtemp'', v6),
         (''template_sdnum'', v7),
         (''detect_filter_fmin'', v10),
         (''detect_filter_fmax'', v11),
         (''detect_filter_order'', o12),
         (''sort_filter_fmin'', v13),
         (''sort_filter_fmax'', v14),
         (''sort_filter_order'', o15),
         (''mintemp'', v16),
         (''w_pre'', v17),
         (''w_post'', v18),
         (''alignment_window'', v19),
         (''stdmax'', v20),
         (''max_spk'', v21),
         (''ref_ms'', v22),
         (''interpolation'', PStr y),
         (''sr'', PFloat samplerate)]"
    and i: "i = - 1 \<or> i = 1 \<or> i = 0"
    and ti: "i = - 1 \<longrightarrow> t = ''neg''" "i = 1 \<longrightarrow> t = ''pos''" "i = 0 \<longrightarrow> t = ''both''"
    by (elim exE conjE) (erule that; assumption)
  define q where "q = [(''detect_threshold'', v1),
         (''detect_sign'', PStr t),
         (''feature_type'', v3),
         (''scales'', v4),
         (''min_clus'', v5),
         (''maxtemp'', v6),
         (''template_sdnum'', v7),
         (''detect_filter_fmin'', v10),
         (''detect_filter_fmax'', v11),
         (''detect_filter_order'', o12),
         (''sort_filter_fmin'', v13),
         (''sort_filter_fmax'', v14),
         (''sort_filter_order'', o15),
         (''mintemp'', v16),
         (''w_pre'', v17),
         (''w_post'', v18),
         (''alignment_window'', v19),
         (''stdmax'', v20),
         (''max_spk'', v21),
         (''ref_ms'', v22),
         (''interpolation'', PStr y),
         (''sr'', PFloat samplerate)]"
  note q = q_def
  note tr = tr [folded q_def]
  have g: "dict_get p ''detect_sign'' = Inr (PInt i)" by (simp add: p)
  have h: "dict_get q ''detect_sign'' = Inr (PStr t)" by (simp add: q)
  have "(dict_get p ''detect_sign'' = Inr (PInt (- 1))
          \<longrightarrow> dict_get q ''detect_sign'' = Inr (PStr ''neg''))
    \<and> (dict_get p ''detect_sign'' = Inr (PInt 1)
          \<longrightarrow> dict_get q ''detect_sign'' = Inr (PStr ''pos''))
    \<and> (dict_get p ''detect_sign'' = Inr (PInt 0)
          \<longrightarrow> dict_get q ''detect_sign'' = Inr (PStr ''both''))
    \<and> (dict_get p ''detect_sign'' = Inr (PInt (- 1))
          \<or> dict_get p ''detect_sign'' = Inr (PInt 1)
          \<or> dict_get p ''detect_sign'' = Inr (PInt 0))"
    unfolding g h using i ti by simp
  with tr show ?thesis by blast
qed

theorem detect_sign_recoding_examples:
  "(\<exists>q. translate_params 30000 default_params = Inr q
        \<and> dict_get default_params ''detect_sign'' = Inr (PInt (- 1))
        \<and> dict_get q ''detect_sign'' = Inr (PStr ''neg''))
   \<and> (\<exists>q. translate_params 30000 (dict_set default_params ''detect_sign'' (PInt 1)) = Inr q
        \<and> dict_get (dict_set default_params ''detect_sign'' (PInt 1)) ''detect_sign'' = Inr (PInt 1)
        \<and> dict_get q ''detect_sign'' = Inr (PStr ''pos''))
   \<and> (\<exists>q. translate_params 30000 (dict_set default_params ''detect_sign'' (PInt 0)) = Inr q
        \<and> dict_get (dict_set default_params ''detect_sign'' (PInt 0)) ''detect_sign'' = Inr (PInt 0)
        \<and> dict_get q ''detect_sign'' = Inr (PStr ''both''))"
proof -
  have s1: "schema_config default_params"
    by (simp add: schema_config_def default_params_def schema_value_def)
  have s2: "schema_config (dict_set default_params ''detect_sign'' (PInt 1))"
    by (simp add: schema_config_def default_params_def schema_value_def keys_def)
  have s3: "schema_config (dict_set default_params ''detect_sign'' (PInt 0))"
    by (simp add: schema_config_def default_params_def schema_value_def keys_def)
  have g1: "dict_get default_params ''detect_sign'' = Inr (PInt (- 1))"
    by (simp add: default_params_def)
  have g2: "dict_get (dict_set default_params ''detect_sign'' (PInt 1)) ''detect_sign'' = Inr (PInt 1)"
    by (simp add: default_params_def)
  have g3: "dict_get (dict_set default_params ''detect_sign'' (PInt 0)) ''detect_sign'' = Inr (PInt 0)"
    by (simp add: default_params_def)
  show ?thesis
    using detect_sign_recoding [OF s1, of 30000] detect_sign_recoding [OF s2, of 30000]
      detect_sign_recoding [OF s3, of 30000] g1 g2 g3
    by blast
qed



section \<open>Claims about the installation check\<close>



lemma check_if_installed_None: "check_if_installed w None = False"
  by (simp add: check_if_installed_def)

lemma strip_quotes_plain: "\<not> startswith p dq \<Longrightarrow> strip_quotes p = p"
  by (simp add: strip_quotes_def)

lemma strip_quotes_enclosed: "strip_quotes (dq @ p @ dq) = p"
  by (simp add: strip_quotes_def dq_def)

text \<open>
  C6. The installation check is false for a path that is not configured, and for a
  configured path it is the presence of \<^verbatim>\<open>wave_clus.m\<close> under the absolute form of
  the path without its quotes (\<open>check_if_installed_None\<close>,
  \<open>check_if_installed_Some\<close>). The quotes are taken off whenever the text starts
  with a double quote, whatever its last character is: in \<open>stray_quote_world\<close> the
  configured text is \<^verbatim>\<open>/opt/wc2\<close> after an opening quote with no closing one, the
  check drops the final \<^verbatim>\<open>2\<close> with the quote, looks into \<^verbatim>\<open>/opt/wc\<close> and
  answers true, although the marker file is neither under the configured text as it
  stands nor under \<^verbatim>\<open>/opt/wc2\<close>.
\<close>

theorem stray_quote_accepted:
  "check_if_installed stray_quote_world (Some (dq @ ''/opt/wc2'')) = True
   \<and> is_installed stray_quote_world = True
   \<and> is_file stray_quote_world
        (joinpath (absolute stray_quote_world (Path (dq @ ''/opt/wc2''))) ''wave_clus.m'') = False
   \<and> is_file stray_quote_world
        (joinpath (absolute stray_quote_world (Path ''/opt/wc2'')) ''wave_clus.m'') = False"
  by (simp add: is_installed_def check_if_installed_def strip_quotes_def stray_quote_world_def
        dq_def Path_def str_path_def absolute_def joinpath_def is_file_def)



section \<open>Claims about setting the installation path\<close>









section \<open>Claims about the export\<close>









section \<open>Claims about the result gate\<close>

lemma translate_schema_succeeds:
  assumes "schema_config p"
  shows "\<exists>q. translate_params samplerate p = Inr q"
  using translate_schema [OF assms, of samplerate] by (elim exE conjE) (rule exI)

lemma run_after_exit:
  assumes "run_compose E self recording output_folder w = (Inr shell_cmd, w1)"
    and "shellscript_run E shell_cmd w1 = Some (Inr retcode, w2)"
  shows "run E self recording output_folder w = Some (result_gate output_folder retcode w2, w2)"
  using assms by (simp add: run_def)

lemma example_compose:
  "\<exists>sc w1. run_compose (example_env rc wr) example_sorter example_recording
       (Path ''/tmp/wc_out'') example_world = (Inr sc, w1)
     \<and> fs w1 ''/tmp/wc_out/times_results.mat'' = None"
proof -
  obtain q where q: "translate_params 30000 default_params = Inr q"
    using translate_schema_succeeds [OF schema_config_default] by blast
  have out: "str_path (Path ''/tmp/wc_out'') = ''/tmp/wc_out''"
    "str_path (joinpath (Path ''/tmp/wc_out'') ''run_waveclus.m'') = ''/tmp/wc_out/run_waveclus.m''"
    by (simp_all add: Path_def str_path_def joinpath_def)
  show ?thesis
    unfolding run_compose_def
    by (simp add: Let_def io_bind_def example_env_def example_sorter_def example_recording_def
          warn_if_filtered_def verbose_summary_def os_makedirs_def q out example_world_def)
qed

lemma example_exit:
  "shellscript_run (example_env rc wr) sc w1
     = Some (Inr rc, if wr then w1\<lparr>fs := (fs w1)(''/tmp/wc_out/times_results.mat'' \<mapsto> OtherFile [])\<rparr>
                     else w1)"
  by (simp add: example_env_def)

lemma result_path_example:
  "str_path (joinpath (Path ''/tmp/wc_out'') ''times_results.mat'') = ''/tmp/wc_out/times_results.mat''"
  by (simp add: Path_def str_path_def joinpath_def)

text \<open>
  C1. In every run whose subprocess ends with an exit code, \<^verbatim>\<open>_run\<close> raises the
  exception of the external-tool failure when the exit code is not zero, raises the
  exception of the missing result when the exit code is zero and
  \<^verbatim>\<open>times_results.mat\<close> is not in the working directory, and returns normally only
  when the exit code is zero and the file is there. The source raises the builtin
  \<^verbatim>\<open>Exception\<close> in both cases; the two failures differ by their messages.
\<close>

theorem result_gate_checks:
  assumes "run_compose E self recording output_folder w = (Inr shell_cmd, w1)"
    and "shellscript_run E shell_cmd w1 = Some (Inr retcode, w2)"
  shows "(retcode \<noteq> 0 \<longrightarrow>
            run E self recording output_folder w
              = Some (Inl (Exception ''waveclus returned a non-zero exit code''), w2))
    \<and> (retcode = 0
          \<and> \<not> os_path_exists w2 (str_path (joinpath output_folder ''times_results.mat'')) \<longrightarrow>
            run E self recording output_folder w
              = Some (Inl (Exception (''Result file does not exist: ''
                    @ str_path (joinpath output_folder ''times_results.mat''))), w2))
    \<and> (run E self recording output_folder w = Some (Inr (), w2) \<longleftrightarrow>
          retcode = 0
          \<and> os_path_exists w2 (str_path (joinpath output_folder ''times_results.mat'')))"
  unfolding run_after_exit [OF assms] by (simp add: result_gate_def Let_def)

theorem result_gate_checks_examples:
  "(\<exists>w2. run (example_env 1 False) example_sorter example_recording (Path ''/tmp/wc_out'')
            example_world
          = Some (Inl (Exception ''waveclus returned a non-zero exit code''), w2))
   \<and> (\<exists>w2. run (example_env 0 False) example_sorter example_recording (Path ''/tmp/wc_out'')
            example_world
          = Some (Inl (Exception ''Result file does not exist: /tmp/wc_out/times_results.mat''), w2))
   \<and> (\<exists>w2. run (example_env 0 True) example_sorter example_recording (Path ''/tmp/wc_out'')
            example_world
          = Some (Inr (), w2))"
proof -
  let ?out = "Path ''/tmp/wc_out''"
  obtain sc1 w1 where c1: "run_compose (example_env 1 False) example_sorter example_recording
       ?out example_world = (Inr sc1, w1)"
    using example_compose [of 1 False] by blast
  have A: "\<exists>w2. run (example_env 1 False) example_sorter example_recording ?out example_world
          = Some (Inl (Exception ''waveclus returned a non-zero exit code''), w2)"
    using result_gate_checks [OF c1 example_exit] by simp
  obtain sc2 w2 where c2: "run_compose (example_env 0 False) example_sorter example_recording
       ?out example_world = (Inr sc2, w2)"
    and n2: "fs w2 ''/tmp/wc_out/times_results.mat'' = None"
    using example_compose [of 0 False] by blast
  have B: "\<exists>w2. run (example_env 0 False) example_sorter example_recording ?out example_world
          = Some (Inl (Exception ''Result file does not exist: /tmp/wc_out/times_results.mat''), w2)"
    using result_gate_checks [OF c2 example_exit] n2
    by (simp add: os_path_exists_def result_path_example)
  obtain sc3 w3 where c3: "run_compose (example_env 0 True) example_sorter example_recording
       ?out example_world = (Inr sc3, w3)"
    using example_compose [of 0 True] by blast
  have C: "\<exists>w2. run (example_env 0 True) example_sorter example_recording ?out example_world
          = Some (Inr (), w2)"
    using result_gate_checks [OF c3 example_exit]
    by (simp add: os_path_exists_def result_path_example)
  from A B C show ?thesis by blast
qed

section \<open>Claims about the failure messages\<close>

lemma wf_part_result: "wf_part ''times_results.mat''"
  by (simp add: wf_part_def)

lemma missing_result_message_names_directory:
  "contains (''Result file does not exist: '' @ str_path (joinpath out ''times_results.mat''))
     (str_path out)"
proof -
  let ?n = "''times_results.mat''"
  let ?pre = "''Result file does not exist: ''"
  have e: "str_path (joinpath out ?n)
      = root out @ (if parts out = [] then ?n else join_slash (parts out) @ ''/'' @ ?n)"
    by (rule str_path_joinpath [OF wf_part_result])
  consider "parts out \<noteq> []" | "parts out = []" "root out \<noteq> []" | "parts out = []" "root out = []"
    by blast
  then show ?thesis
  proof cases
    case 1
    then have "?pre @ str_path (joinpath out ?n) = ?pre @ str_path out @ (''/'' @ ?n)"
      unfolding e by (simp add: str_path_def)
    then show ?thesis unfolding contains_iff by blast
  next
    case 2
    then have "?pre @ str_path (joinpath out ?n) = ?pre @ str_path out @ ?n"
      unfolding e by (simp add: str_path_def)
    then show ?thesis unfolding contains_iff by blast
  next
    case 3
    then have "?pre @ str_path (joinpath out ?n)
        = ''Result file does not exist: times_results'' @ str_path out @ ''mat''"
      unfolding e by (simp add: str_path_def)
    then show ?thesis unfolding contains_iff by blast
  qed
qed

text \<open>
  C8, as the specification states it, does not hold: in the sample run that ends with
  the exit code 1 the failure carries the message
  \<^verbatim>\<open>waveclus returned a non-zero exit code\<close>, in which neither the working directory
  \<^verbatim>\<open>/tmp/wc_out\<close> nor the log file \<^verbatim>\<open>/tmp/wc_out/waveclus.log\<close> occurs.
\<close>

theorem exit_code_message_lacks_paths:
  "map_option fst (run (example_env 1 False) example_sorter example_recording
       (Path ''/tmp/wc_out'') example_world)
     = Some (Inl (Exception ''waveclus returned a non-zero exit code''))
   \<and> str_path (Path ''/tmp/wc_out'') = ''/tmp/wc_out''
   \<and> \<not> contains ''waveclus returned a non-zero exit code'' ''/tmp/wc_out''
   \<and> str_path (joinpath (Path ''/tmp/wc_out'') ''waveclus.log'') = ''/tmp/wc_out/waveclus.log''
   \<and> \<not> contains ''waveclus returned a non-zero exit code'' ''/tmp/wc_out/waveclus.log''"
proof -
  obtain sc w1 where c: "run_compose (example_env 1 False) example_sorter example_recording
       (Path ''/tmp/wc_out'') example_world = (Inr sc, w1)"
    using example_compose [of 1 False] by blast
  have r: "map_option fst (run (example_env 1 False) example_sorter example_recording
       (Path ''/tmp/wc_out'') example_world)
     = Some (Inl (Exception ''waveclus returned a non-zero exit code''))"
    unfolding run_after_exit [OF c example_exit] by (simp add: result_gate_def)
  have p: "str_path (Path ''/tmp/wc_out'') = ''/tmp/wc_out''"
    "str_path (joinpath (Path ''/tmp/wc_out'') ''waveclus.log'') = ''/tmp/wc_out/waveclus.log''"
    by (simp_all add: Path_def str_path_def joinpath_def)
  have n: "\<not> contains ''waveclus returned a non-zero exit code'' ''/tmp/wc_out''"
    "\<not> contains ''waveclus returned a non-zero exit code'' ''/tmp/wc_out/waveclus.log''"
    by simp_all
  from r p n show ?thesis by blast
qed

text \<open>
  C8, amended. The failure on a missing result file carries the message
  \<^verbatim>\<open>Result file does not exist: \<close> followed by the path of the result file in the
  working directory, in which the path of the working directory occurs. The failure on
  an exit code that is not zero carries the fixed message
  \<^verbatim>\<open>waveclus returned a non-zero exit code\<close>, whatever the working directory and the
  log file are.
\<close>

theorem failure_messages:
  assumes "run_compose E self recording output_folder w = (Inr shell_cmd, w1)"
    and "shellscript_run E shell_cmd w1 = Some (Inr retcode, w2)"
  shows "(retcode \<noteq> 0 \<longrightarrow>
            run E self recording output_folder w
              = Some (Inl (Exception ''waveclus returned a non-zero exit code''), w2))
    \<and> (retcode = 0
          \<and> \<not> os_path_exists w2 (str_path (joinpath output_folder ''times_results.mat'')) \<longrightarrow>
            (\<exists>m. run E self recording output_folder w = Some (Inl (Exception m), w2)
               \<and> m = ''Result file does not exist: ''
                     @ str_path (joinpath output_folder ''times_results.mat'')
               \<and> contains m (str_path output_folder)))"
proof -
  have a: "retcode \<noteq> 0 \<longrightarrow>
            run E self recording output_folder w
              = Some (Inl (Exception ''waveclus returned a non-zero exit code''), w2)"
    unfolding run_after_exit [OF assms] by (simp add: result_gate_def)
  have b: "retcode = 0
          \<and> \<not> os_path_exists w2 (str_path (joinpath output_folder ''times_results.mat'')) \<longrightarrow>
            run E self recording output_folder w
              = Some (Inl (Exception (''Result file does not exist: ''
                     @ str_path (joinpath output_folder ''times_results.mat''))), w2)"
    unfolding run_after_exit [OF assms] by (simp add: result_gate_def Let_def)
  from a b missing_result_message_names_directory [of output_folder] show ?thesis by blast
qed

theorem failure_messages_examples:
  "(\<exists>w2. run (example_env 3 False) example_sorter example_recording (Path ''/tmp/wc_out'')
            example_world
          = Some (Inl (Exception ''waveclus returned a non-zero exit code''), w2))
   \<and> (\<exists>w2. run (example_env 0 False) example_sorter example_recording (Path ''/tmp/wc_out'')
            example_world
          = Some (Inl (Exception ''Result file does not exist: /tmp/wc_out/times_results.mat''), w2)
        \<and> contains ''Result file does not exist: /tmp/wc_out/times_results.mat'' ''/tmp/wc_out'')"
proof -
  let ?out = "Path ''/tmp/wc_out''"
  have o: "str_path ?out = ''/tmp/wc_out''" by (simp add: Path_def str_path_def)
  obtain sc1 w1 where c1: "run_compose (example_env 3 False) example_sorter example_recording
       ?out example_world = (Inr sc1, w1)"
    using example_compose [of 3 False] by blast
  have A: "\<exists>w2. run (example_env 3 False) example_sorter example_recording ?out example_world
          = Some (Inl (Exception ''waveclus returned a non-zero exit code''), w2)"
    using failure_messages [OF c1 example_exit] by simp
  obtain sc2 w2 where c2: "run_compose (example_env 0 False) example_sorter example_recording
       ?out example_world = (Inr sc2, w2)"
    and n2: "fs w2 ''/tmp/wc_out/times_results.mat'' = None"
    using example_compose [of 0 False] by blast
  have B: "\<exists>w2. run (example_env 0 False) example_sorter example_recording ?out example_world
          = Some (Inl (Exception ''Result file does not exist: /tmp/wc_out/times_results.mat''), w2)
        \<and> contains ''Result file does not exist: /tmp/wc_out/times_results.mat'' ''/tmp/wc_out''"
    using failure_messages [OF c2 example_exit] n2
    unfolding result_path_example o by (simp add: os_path_exists_def)
  from A B show ?thesis by blast
qed

end
